theory Spec2Isabelle
  imports Main "HOL-Library.Word"
begin

unbundle bit_operations_syntax

section \<open>Failure modes of the modelled code\<close>

text \<open>
  The C++ code has no exceptions on the paths modelled here; what it has are undefined
  behaviours and one assertion.  Each of them is a value of the model:
  \<^item> \<open>ArrayOverrun\<close>: a write past the end of the fixed 5-element output array of
    \<open>VulkanUtility::cutRange\<close>;
  \<^item> \<open>AssertionFailed\<close>: \<open>assert(numAreas <= 5)\<close> at the end of \<open>cutRange\<close>;
  \<^item> \<open>NullDereference\<close>: \<open>->\<close> on the null pointer returned by \<open>weak_ptr::lock()\<close> for an expired
    entry, or on \<open>end()\<close> returned by \<open>find\<close> for an unregistered wrapper;
  \<^item> \<open>DanglingPool\<close>: a call through \<open>mPool\<close> after the pool has been destroyed.
\<close>

datatype error = ArrayOverrun | AssertionFailed | NullDereference | DanglingPool

section \<open>Range partitioner (BsVulkanUtility.cpp)\<close>

type_synonym UINT32 = "32 word"

text \<open>
  \<open>VkImageSubresourceRange\<close> is the Vulkan structure: five 32-bit unsigned fields.
  The code copies whole structures (\<open>output[numAreas] = toCut\<close>) and then overwrites two fields.
\<close>

record VkImageSubresourceRange =
  aspectMask :: UINT32
  baseMipLevel :: UINT32
  levelCount :: UINT32
  baseArrayLayer :: UINT32
  layerCount :: UINT32

text \<open>
  \<open>cutHorizontal\<close>, lines 548-596.  \<open>leftCut\<close> and \<open>rightCut\<close> are \<open>INT32\<close> values obtained from
  unsigned 32-bit subtraction, so they are 32-bit words compared with the signed order \<open><s\<close>;
  the casts \<open>(INT32)(...)\<close> reinterpret the same 32 bits.  The assignments back into the
  unsigned fields are again reinterpretations, so all arithmetic is word arithmetic.
  The output buffer together with \<open>numAreas\<close> is the returned list.
\<close>

definition cutHorizontal ::
  "VkImageSubresourceRange \<Rightarrow> VkImageSubresourceRange \<Rightarrow> VkImageSubresourceRange list" where
  "cutHorizontal toCut cutWith =
    (let leftCut = baseArrayLayer cutWith - baseArrayLayer toCut;
         rightCut = (baseArrayLayer cutWith + layerCount cutWith) - baseArrayLayer toCut;
         out1 = (if 0 <s leftCut \<and> leftCut <s (baseArrayLayer toCut + layerCount toCut)
                 then [toCut\<lparr>baseArrayLayer := baseArrayLayer toCut, layerCount := leftCut\<rparr>]
                 else []);
         out2 = out1 @
                (if 0 <s rightCut \<and> rightCut <s layerCount toCut
                 then [toCut\<lparr>baseArrayLayer := baseArrayLayer toCut + rightCut,
                              layerCount := layerCount toCut - rightCut\<rparr>]
                 else []);
         out3 = out2 @
                (if length out2 = 2
                 then [toCut\<lparr>baseArrayLayer := baseArrayLayer toCut + leftCut,
                              layerCount := layerCount toCut - (layerCount toCut - rightCut) - leftCut\<rparr>]
                 else [])
     in if length out3 = 0 then [toCut] else out3)"

text \<open>\<open>cutVertical\<close>, lines 598-646: the same code on the mip-level fields.\<close>

definition cutVertical ::
  "VkImageSubresourceRange \<Rightarrow> VkImageSubresourceRange \<Rightarrow> VkImageSubresourceRange list" where
  "cutVertical toCut cutWith =
    (let topCut = baseMipLevel cutWith - baseMipLevel toCut;
         bottomCut = (baseMipLevel cutWith + levelCount cutWith) - baseMipLevel toCut;
         out1 = (if 0 <s topCut \<and> topCut <s (baseMipLevel toCut + levelCount toCut)
                 then [toCut\<lparr>baseMipLevel := baseMipLevel toCut, levelCount := topCut\<rparr>]
                 else []);
         out2 = out1 @
                (if 0 <s bottomCut \<and> bottomCut <s levelCount toCut
                 then [toCut\<lparr>baseMipLevel := baseMipLevel toCut + bottomCut,
                              levelCount := levelCount toCut - bottomCut\<rparr>]
                 else []);
         out3 = out2 @
                (if length out2 = 2
                 then [toCut\<lparr>baseMipLevel := baseMipLevel toCut + topCut,
                              levelCount := levelCount toCut - (levelCount toCut - bottomCut) - topCut\<rparr>]
                 else [])
     in if length out3 = 0 then [toCut] else out3)"

text \<open>
  The loop of \<open>cutRange\<close>, lines 659-676, over the horizontal pieces.  \<open>out\<close> is the filled
  prefix \<open>output[0..numAreas)\<close> of the \<open>std::array<VkImageSubresourceRange, 5>\<close>; a piece that
  would be written at index 5 or beyond is an overrun.  The containment test compares the
  unsigned fields, with the sums wrapping (\<open>rng\<close> is the source's \<open>range\<close>).
\<close>

definition layersWithin :: "VkImageSubresourceRange \<Rightarrow> VkImageSubresourceRange \<Rightarrow> bool" where
  "layersWithin rng cutWith \<longleftrightarrow>
     baseArrayLayer rng \<ge> baseArrayLayer cutWith \<and>
     baseArrayLayer rng + layerCount rng \<le> baseArrayLayer cutWith + layerCount cutWith"

fun cutRange_loop ::
  "VkImageSubresourceRange \<Rightarrow> VkImageSubresourceRange list \<Rightarrow> VkImageSubresourceRange list
     \<Rightarrow> error + VkImageSubresourceRange list" where
  "cutRange_loop cutWith [] out = Inr out"
| "cutRange_loop cutWith (rng # horzCuts) out =
     (let pieces = (if layersWithin rng cutWith then cutVertical rng cutWith else [rng])
      in if length out + length pieces > 5 then Inl ArrayOverrun
         else cutRange_loop cutWith horzCuts (out @ pieces))"

text \<open>\<open>VulkanUtility::cutRange\<close>, lines 648-679.  \<open>numAreas\<close> is the length of the result.\<close>

definition cutRange ::
  "VkImageSubresourceRange \<Rightarrow> VkImageSubresourceRange \<Rightarrow> error + VkImageSubresourceRange list" where
  "cutRange toCut cutWith =
     (case cutRange_loop cutWith (cutHorizontal toCut cutWith) [] of
        Inl e \<Rightarrow> Inl e
      | Inr out \<Rightarrow> if length out \<le> 5 then Inr out else Inl AssertionFailed)"

text \<open>\<open>VulkanUtility::rangeOverlaps\<close>, lines 681-694: signed comparisons of the 32-bit sums.\<close>

definition rangeOverlaps :: "VkImageSubresourceRange \<Rightarrow> VkImageSubresourceRange \<Rightarrow> bool" where
  "rangeOverlaps a b =
     (let aRight = baseArrayLayer a + layerCount a;
          bRight = baseArrayLayer b + layerCount b;
          aBottom = baseMipLevel a + levelCount a;
          bBottom = baseMipLevel b + levelCount b
      in if baseArrayLayer a <s bRight \<and> baseArrayLayer b <s aRight \<and>
            baseMipLevel a <s bBottom \<and> baseMipLevel b <s aBottom
         then True else False)"

text \<open>
  Vocabulary for the statements: the (layer, mip) cells a range covers, and the ranges whose
  end coordinates are representable as non-negative \<open>INT32\<close> values, which is what the casts
  in the code presuppose.
\<close>

definition cells :: "VkImageSubresourceRange \<Rightarrow> (nat \<times> nat) list" where
  "cells r = List.product
     [unat (baseArrayLayer r) ..< unat (baseArrayLayer r) + unat (layerCount r)]
     [unat (baseMipLevel r) ..< unat (baseMipLevel r) + unat (levelCount r)]"

definition wellFormed :: "VkImageSubresourceRange \<Rightarrow> bool" where
  "wellFormed r \<longleftrightarrow>
     unat (baseArrayLayer r) + unat (layerCount r) < 2 ^ 31 \<and>
     unat (baseMipLevel r) + unat (levelCount r) < 2 ^ 31"

definition mkRange :: "UINT32 \<Rightarrow> UINT32 \<Rightarrow> UINT32 \<Rightarrow> UINT32 \<Rightarrow> VkImageSubresourceRange" where
  "mkRange bl lc bm mc =
     \<lparr>aspectMask = 1, baseMipLevel = bm, levelCount = mc, baseArrayLayer = bl, layerCount = lc\<rparr>"

text \<open>
  Pairwise non-overlap of a list of ranges, by the code's own \<open>rangeOverlaps\<close> taken in both
  argument orders.
\<close>

fun noOverlaps :: "VkImageSubresourceRange \<Rightarrow> VkImageSubresourceRange list \<Rightarrow> bool" where
  "noOverlaps r [] = True"
| "noOverlaps r (x # xs) = (\<not> rangeOverlaps r x \<and> \<not> rangeOverlaps x r \<and> noOverlaps r xs)"

fun pairwiseApart :: "VkImageSubresourceRange list \<Rightarrow> bool" where
  "pairwiseApart [] = True"
| "pairwiseApart (x # xs) = (noOverlaps x xs \<and> pairwiseApart xs)"

text \<open>
  \<open>layersClear R R'\<close>: on the layer axis \<open>R'\<close> ends at or before the first layer of \<open>R\<close>, or
  begins at least \<open>baseArrayLayer R + layerCount R\<close> layers after the first layer of \<open>R\<close>.
  For \<open>baseArrayLayer R = 0\<close> the second alternative is "begins at or after the end of \<open>R\<close>".
  \<open>mipsClear\<close> is the same on the mip axis.
\<close>

definition layersClear :: "VkImageSubresourceRange \<Rightarrow> VkImageSubresourceRange \<Rightarrow> bool" where
  "layersClear R R' \<longleftrightarrow>
     unat (baseArrayLayer R') + unat (layerCount R') \<le> unat (baseArrayLayer R) \<or>
     unat (baseArrayLayer R) + (unat (baseArrayLayer R) + unat (layerCount R)) \<le> unat (baseArrayLayer R')"

definition mipsClear :: "VkImageSubresourceRange \<Rightarrow> VkImageSubresourceRange \<Rightarrow> bool" where
  "mipsClear R R' \<longleftrightarrow>
     unat (baseMipLevel R') + unat (levelCount R') \<le> unat (baseMipLevel R) \<or>
     unat (baseMipLevel R) + (unat (baseMipLevel R) + unat (levelCount R)) \<le> unat (baseMipLevel R')"

section \<open>Proofs: range partitioner\<close>

subsection \<open>Signed and unsigned readings of 32-bit values below \<open>2^31\<close>\<close>


lemma sint_small: "uint (x::32 word) < 2 ^ 31 \<Longrightarrow> sint x = uint x"
proof -
  assume a: "uint x < 2 ^ 31"
  have "- (2 ^ 31) \<le> uint x" by (rule order_trans [of _ 0]) simp_all
  then have "signed_take_bit 31 (uint x) = uint x"
    using a by (intro signed_take_bit_int_eq_self)
  then show ?thesis by (simp add: sint_uint)
qed

lemma sint_sub_small:
  assumes "uint (x::32 word) < 2 ^ 31" "uint y < 2 ^ 31"
  shows "sint (x - y) = uint x - uint y"
proof -
  have "0 \<le> uint x" "0 \<le> uint y" by simp_all
  then have "- (2 ^ 31) \<le> uint x - uint y" "uint x - uint y < 2 ^ 31"
    using assms by linarith+
  then have "signed_take_bit 31 (uint x - uint y) = uint x - uint y"
    by (intro signed_take_bit_int_eq_self)
  then show ?thesis using assms by (simp add: sint_word_diff sint_small)
qed

lemma uint_add_small: "uint (x::32 word) + uint y < 2 ^ 31 \<Longrightarrow> uint (x + y) = uint x + uint y"
  by (simp add: uint_add_lem [THEN iffD1])

lemma wellFormed_layers:
  assumes "wellFormed r"
  shows "uint (baseArrayLayer r) + uint (layerCount r) < 2 ^ 31"
    and "uint (baseArrayLayer r) < 2 ^ 31" and "uint (layerCount r) < 2 ^ 31"
    and "uint (baseArrayLayer r + layerCount r) = uint (baseArrayLayer r) + uint (layerCount r)"
proof -
  have "int (unat (baseArrayLayer r) + unat (layerCount r)) < int (2 ^ 31)"
    using assms unfolding wellFormed_def by (simp only: of_nat_less_iff)
  then show s: "uint (baseArrayLayer r) + uint (layerCount r) < 2 ^ 31" by simp
  have "0 \<le> uint (baseArrayLayer r)" "0 \<le> uint (layerCount r)" by simp_all
  with s show "uint (baseArrayLayer r) < 2 ^ 31" "uint (layerCount r) < 2 ^ 31" by linarith+
  from s show "uint (baseArrayLayer r + layerCount r) = uint (baseArrayLayer r) + uint (layerCount r)"
    by (rule uint_add_small)
qed

lemma leftCut_sint:
  assumes "wellFormed a" "wellFormed b"
  shows "sint (baseArrayLayer b - baseArrayLayer a) = uint (baseArrayLayer b) - uint (baseArrayLayer a)"
  by (rule sint_sub_small) (rule wellFormed_layers(2) [OF assms(2)], rule wellFormed_layers(2) [OF assms(1)])

lemma rightCut_sint:
  assumes "wellFormed a" "wellFormed b"
  shows "sint ((baseArrayLayer b + layerCount b) - baseArrayLayer a)
       = uint (baseArrayLayer b) + uint (layerCount b) - uint (baseArrayLayer a)"
proof -
  have "uint (baseArrayLayer b + layerCount b) < 2 ^ 31"
    using wellFormed_layers(1,4) [OF assms(2)] by (simp only:)
  then have "sint ((baseArrayLayer b + layerCount b) - baseArrayLayer a)
       = uint (baseArrayLayer b + layerCount b) - uint (baseArrayLayer a)"
    by (rule sint_sub_small) (rule wellFormed_layers(2) [OF assms(1)])
  then show ?thesis by (simp only: wellFormed_layers(4) [OF assms(2)])
qed

lemma left_not_within:
  assumes "wellFormed a" "wellFormed b" "0 <s baseArrayLayer b - baseArrayLayer a"
  shows "\<not> layersWithin (a\<lparr>baseArrayLayer := baseArrayLayer a, layerCount := lc\<rparr>) b"
proof -
  have "uint (baseArrayLayer a) < uint (baseArrayLayer b)"
    using assms(3) by (simp add: word_sless_alt leftCut_sint [OF assms(1,2)])
  then show ?thesis by (simp add: layersWithin_def word_le_def)
qed

lemma right_not_within:
  assumes "wellFormed a" "wellFormed b"
    and "(baseArrayLayer b + layerCount b) - baseArrayLayer a <s layerCount a"
  shows "\<not> layersWithin (a\<lparr>baseArrayLayer := baseArrayLayer a + rc, layerCount := layerCount a - rc\<rparr>) b"
proof -
  have "sint (layerCount a) = uint (layerCount a)"
    by (rule sint_small) (rule wellFormed_layers(3) [OF assms(1)])
  then have "uint (baseArrayLayer b) + uint (layerCount b) - uint (baseArrayLayer a) < uint (layerCount a)"
    using assms(3) by (simp add: word_sless_alt rightCut_sint [OF assms(1,2)])
  then have "uint (baseArrayLayer b + layerCount b) < uint (baseArrayLayer a + layerCount a)"
    by (simp add: wellFormed_layers(4) [OF assms(1)] wellFormed_layers(4) [OF assms(2)])
  then show ?thesis by (simp add: layersWithin_def word_le_def)
qed

lemma cutVertical_length: "length (cutVertical r c) \<le> 3"
  by (simp add: cutVertical_def Let_def)

lemma cutHorizontal_shape:
  assumes "wellFormed a" "wellFormed b"
  shows "cutHorizontal a b = [a]
       \<or> (\<exists>p. cutHorizontal a b = [p] \<and> \<not> layersWithin p b)
       \<or> (\<exists>p q m. cutHorizontal a b = [p, q, m] \<and> \<not> layersWithin p b \<and> \<not> layersWithin q b)"
  using left_not_within [OF assms, of "baseArrayLayer b - baseArrayLayer a"]
    right_not_within [OF assms, of "baseArrayLayer b + layerCount b - baseArrayLayer a"]
  by (auto simp add: cutHorizontal_def Let_def)

lemma wellFormed_mips:
  assumes "wellFormed r"
  shows "uint (baseMipLevel r) + uint (levelCount r) < 2 ^ 31"
    and "uint (baseMipLevel r) < 2 ^ 31" and "uint (levelCount r) < 2 ^ 31"
    and "uint (baseMipLevel r + levelCount r) = uint (baseMipLevel r) + uint (levelCount r)"
proof -
  have "int (unat (baseMipLevel r) + unat (levelCount r)) < int (2 ^ 31)"
    using assms unfolding wellFormed_def by (simp only: of_nat_less_iff)
  then show s: "uint (baseMipLevel r) + uint (levelCount r) < 2 ^ 31" by simp
  have "0 \<le> uint (baseMipLevel r)" "0 \<le> uint (levelCount r)" by simp_all
  with s show "uint (baseMipLevel r) < 2 ^ 31" "uint (levelCount r) < 2 ^ 31" by linarith+
  from s show "uint (baseMipLevel r + levelCount r) = uint (baseMipLevel r) + uint (levelCount r)"
    by (rule uint_add_small)
qed

lemma topCut_sint:
  assumes "wellFormed a" "wellFormed b"
  shows "sint (baseMipLevel b - baseMipLevel a) = uint (baseMipLevel b) - uint (baseMipLevel a)"
  by (rule sint_sub_small) (rule wellFormed_mips(2) [OF assms(2)], rule wellFormed_mips(2) [OF assms(1)])

lemma bottomCut_sint:
  assumes "wellFormed a" "wellFormed b"
  shows "sint ((baseMipLevel b + levelCount b) - baseMipLevel a)
       = uint (baseMipLevel b) + uint (levelCount b) - uint (baseMipLevel a)"
proof -
  have "uint (baseMipLevel b + levelCount b) < 2 ^ 31"
    using wellFormed_mips(1,4) [OF assms(2)] by (simp only:)
  then have "sint ((baseMipLevel b + levelCount b) - baseMipLevel a)
       = uint (baseMipLevel b + levelCount b) - uint (baseMipLevel a)"
    by (rule sint_sub_small) (rule wellFormed_mips(2) [OF assms(1)])
  then show ?thesis by (simp only: wellFormed_mips(4) [OF assms(2)])
qed

lemma layerEnd_sint:
  assumes "wellFormed a"
  shows "sint (baseArrayLayer a + layerCount a) = uint (baseArrayLayer a) + uint (layerCount a)"
    and "sint (layerCount a) = uint (layerCount a)"
proof -
  have "uint (baseArrayLayer a + layerCount a) < 2 ^ 31"
    using wellFormed_layers(1,4) [OF assms] by (simp only:)
  then have "sint (baseArrayLayer a + layerCount a) = uint (baseArrayLayer a + layerCount a)"
    by (rule sint_small)
  then show "sint (baseArrayLayer a + layerCount a) = uint (baseArrayLayer a) + uint (layerCount a)"
    by (simp only: wellFormed_layers(4) [OF assms])
  show "sint (layerCount a) = uint (layerCount a)"
    by (rule sint_small) (rule wellFormed_layers(3) [OF assms])
qed

lemma mipEnd_sint:
  assumes "wellFormed a"
  shows "sint (baseMipLevel a + levelCount a) = uint (baseMipLevel a) + uint (levelCount a)"
    and "sint (levelCount a) = uint (levelCount a)"
proof -
  have "uint (baseMipLevel a + levelCount a) < 2 ^ 31"
    using wellFormed_mips(1,4) [OF assms] by (simp only:)
  then have "sint (baseMipLevel a + levelCount a) = uint (baseMipLevel a + levelCount a)"
    by (rule sint_small)
  then show "sint (baseMipLevel a + levelCount a) = uint (baseMipLevel a) + uint (levelCount a)"
    by (simp only: wellFormed_mips(4) [OF assms])
  show "sint (levelCount a) = uint (levelCount a)"
    by (rule sint_small) (rule wellFormed_mips(3) [OF assms])
qed

text \<open>The two guards of cutHorizontal, read as integer comparisons.\<close>

lemma cutHorizontal_guards:
  assumes "wellFormed a" "wellFormed b"
  shows "(0 <s baseArrayLayer b - baseArrayLayer a \<and>
          baseArrayLayer b - baseArrayLayer a <s baseArrayLayer a + layerCount a)
         \<longleftrightarrow> (uint (baseArrayLayer a) < uint (baseArrayLayer b) \<and>
              uint (baseArrayLayer b) - uint (baseArrayLayer a)
                < uint (baseArrayLayer a) + uint (layerCount a))"
    and "(0 <s baseArrayLayer b + layerCount b - baseArrayLayer a \<and>
          baseArrayLayer b + layerCount b - baseArrayLayer a <s layerCount a)
         \<longleftrightarrow> (uint (baseArrayLayer a) < uint (baseArrayLayer b) + uint (layerCount b) \<and>
              uint (baseArrayLayer b) + uint (layerCount b) < uint (baseArrayLayer a) + uint (layerCount a))"
  by (auto simp add: word_sless_alt leftCut_sint [OF assms] rightCut_sint [OF assms]
        layerEnd_sint [OF assms(1)])

lemma cutVertical_guards:
  assumes "wellFormed a" "wellFormed b"
  shows "(0 <s baseMipLevel b - baseMipLevel a \<and>
          baseMipLevel b - baseMipLevel a <s baseMipLevel a + levelCount a)
         \<longleftrightarrow> (uint (baseMipLevel a) < uint (baseMipLevel b) \<and>
              uint (baseMipLevel b) - uint (baseMipLevel a)
                < uint (baseMipLevel a) + uint (levelCount a))"
    and "(0 <s baseMipLevel b + levelCount b - baseMipLevel a \<and>
          baseMipLevel b + levelCount b - baseMipLevel a <s levelCount a)
         \<longleftrightarrow> (uint (baseMipLevel a) < uint (baseMipLevel b) + uint (levelCount b) \<and>
              uint (baseMipLevel b) + uint (levelCount b) < uint (baseMipLevel a) + uint (levelCount a))"
  by (auto simp add: word_sless_alt topCut_sint [OF assms] bottomCut_sint [OF assms]
        mipEnd_sint [OF assms(1)])

lemma layersWithin_int:
  assumes "wellFormed a" "wellFormed b"
  shows "layersWithin a b \<longleftrightarrow> uint (baseArrayLayer b) \<le> uint (baseArrayLayer a) \<and>
     uint (baseArrayLayer a) + uint (layerCount a) \<le> uint (baseArrayLayer b) + uint (layerCount b)"
  by (simp add: layersWithin_def word_le_def wellFormed_layers(4) [OF assms(1)]
        wellFormed_layers(4) [OF assms(2)])

lemma layersClear_int:
  "layersClear R R' \<longleftrightarrow>
     uint (baseArrayLayer R') + uint (layerCount R') \<le> uint (baseArrayLayer R) \<or>
     uint (baseArrayLayer R) + (uint (baseArrayLayer R) + uint (layerCount R)) \<le> uint (baseArrayLayer R')"
  unfolding layersClear_def uint_nat by linarith

lemma mipsClear_int:
  "mipsClear R R' \<longleftrightarrow>
     uint (baseMipLevel R') + uint (levelCount R') \<le> uint (baseMipLevel R) \<or>
     uint (baseMipLevel R) + (uint (baseMipLevel R) + uint (levelCount R)) \<le> uint (baseMipLevel R')"
  unfolding mipsClear_def uint_nat by linarith

lemma cutHorizontal_clear:
  assumes "wellFormed R" "wellFormed R'" "layersClear R R' \<or> layersWithin R R'"
  shows "cutHorizontal R R' = [R]"
proof -
  have nn: "0 \<le> uint (baseArrayLayer R)" "0 \<le> uint (layerCount R)"
    "0 \<le> uint (baseArrayLayer R')" "0 \<le> uint (layerCount R')" by simp_all
  have l: "\<not> (0 <s baseArrayLayer R' - baseArrayLayer R \<and>
          baseArrayLayer R' - baseArrayLayer R <s baseArrayLayer R + layerCount R)"
    unfolding cutHorizontal_guards(1) [OF assms(1,2)]
    using assms(3) nn unfolding layersClear_int layersWithin_int [OF assms(1,2)] by linarith
  have r: "\<not> (0 <s baseArrayLayer R' + layerCount R' - baseArrayLayer R \<and>
          baseArrayLayer R' + layerCount R' - baseArrayLayer R <s layerCount R)"
    unfolding cutHorizontal_guards(2) [OF assms(1,2)]
    using assms(3) nn unfolding layersClear_int layersWithin_int [OF assms(1,2)] by linarith
  show ?thesis using l r by (auto simp add: cutHorizontal_def Let_def)
qed

lemma cutVertical_clear:
  assumes "wellFormed R" "wellFormed R'" "mipsClear R R'"
  shows "cutVertical R R' = [R]"
proof -
  have nn: "0 \<le> uint (baseMipLevel R)" "0 \<le> uint (levelCount R)"
    "0 \<le> uint (baseMipLevel R')" "0 \<le> uint (levelCount R')" by simp_all
  have l: "\<not> (0 <s baseMipLevel R' - baseMipLevel R \<and>
          baseMipLevel R' - baseMipLevel R <s baseMipLevel R + levelCount R)"
    unfolding cutVertical_guards(1) [OF assms(1,2)]
    using assms(3) nn unfolding mipsClear_int by linarith
  have r: "\<not> (0 <s baseMipLevel R' + levelCount R' - baseMipLevel R \<and>
          baseMipLevel R' + levelCount R' - baseMipLevel R <s levelCount R)"
    unfolding cutVertical_guards(2) [OF assms(1,2)]
    using assms(3) nn unfolding mipsClear_int by linarith
  show ?thesis using l r by (auto simp add: cutVertical_def Let_def)
qed

lemma layersClear_not_within:
  assumes "wellFormed R" "wellFormed R'" "layersClear R R'" "0 < unat (layerCount R)"
  shows "\<not> layersWithin R R'"
proof -
  have "layerCount R \<noteq> 0" using assms(4) by auto
  then have "uint (layerCount R) \<noteq> 0" by (simp add: uint_0_iff)
  moreover have "0 \<le> uint (layerCount R)" by simp
  ultimately have pos: "0 < uint (layerCount R)" by linarith
  have nn: "0 \<le> uint (baseArrayLayer R)"
    "0 \<le> uint (baseArrayLayer R')" "0 \<le> uint (layerCount R')" by simp_all
  show ?thesis
    using assms(3) nn pos unfolding layersClear_int layersWithin_int [OF assms(1,2)] by linarith
qed

section \<open>The claims about the range partitioner\<close>

lemmas cut_defs =
  cutRange_def cutHorizontal_def cutVertical_def layersWithin_def mkRange_def Let_def word_sless_alt

subsection \<open>C1: the interior 1x1 cut of a 4x4 range\<close>

text \<open>
  C1 as stated fails: for \<open>toCut\<close> = layers [0,4) x mips [0,4) and \<open>cutWith\<close> = layers [1,2) x
  mips [1,2) the code returns five rectangles, and the fifth one is the cut-out region itself
  (the "middle" piece of \<open>cutVertical\<close>).
\<close>

theorem cutRange_interior_counterexample:
  "cutRange (mkRange 0 4 0 4) (mkRange 1 1 1 1) =
     Inr [mkRange 0 1 0 4, mkRange 2 2 0 4, mkRange 1 1 0 1, mkRange 1 1 2 2, mkRange 1 1 1 1]
   \<and> mkRange 1 1 1 1 \<in> set [mkRange 0 1 0 4, mkRange 2 2 0 4, mkRange 1 1 0 1, mkRange 1 1 2 2, mkRange 1 1 1 1]"
  by (simp add: cut_defs)

text \<open>
  Claim C1, amended.  For \<open>toCut\<close> = layers [0,4) x mips [0,4) and \<open>cutWith\<close> = layers [1,2) x
  mips [1,2), \<open>cutRange\<close> returns exactly five rectangles: layers [0,1) x mips [0,4),
  layers [2,4) x mips [0,4), layers [1,2) x mips [0,1), layers [1,2) x mips [2,4), and as the
  fifth the cut-out region layers [1,2) x mips [1,2) itself.  The five are pairwise
  non-overlapping, the first four do not overlap the cut-out region, and the union of the five
  is exactly the original 4x4 rectangle.
\<close>

theorem cutRange_interior_example:
  "cutRange (mkRange 0 4 0 4) (mkRange 1 1 1 1) =
     Inr [mkRange 0 1 0 4, mkRange 2 2 0 4, mkRange 1 1 0 1, mkRange 1 1 2 2, mkRange 1 1 1 1]
   \<and> pairwiseApart [mkRange 0 1 0 4, mkRange 2 2 0 4, mkRange 1 1 0 1, mkRange 1 1 2 2, mkRange 1 1 1 1]
   \<and> noOverlaps (mkRange 1 1 1 1) [mkRange 0 1 0 4, mkRange 2 2 0 4, mkRange 1 1 0 1, mkRange 1 1 2 2]
   \<and> distinct (concat (map cells [mkRange 0 1 0 4, mkRange 2 2 0 4, mkRange 1 1 0 1, mkRange 1 1 2 2, mkRange 1 1 1 1]))
   \<and> set (concat (map cells [mkRange 0 1 0 4, mkRange 2 2 0 4, mkRange 1 1 0 1, mkRange 1 1 2 2, mkRange 1 1 1 1]))
       = set (cells (mkRange 0 4 0 4))"
proof (intro conjI)
  show "cutRange (mkRange 0 4 0 4) (mkRange 1 1 1 1) =
     Inr [mkRange 0 1 0 4, mkRange 2 2 0 4, mkRange 1 1 0 1, mkRange 1 1 2 2, mkRange 1 1 1 1]"
    by (simp add: cut_defs)
  show "pairwiseApart [mkRange 0 1 0 4, mkRange 2 2 0 4, mkRange 1 1 0 1, mkRange 1 1 2 2, mkRange 1 1 1 1]"
    by code_simp
  show "noOverlaps (mkRange 1 1 1 1) [mkRange 0 1 0 4, mkRange 2 2 0 4, mkRange 1 1 0 1, mkRange 1 1 2 2]"
    by code_simp
  show "distinct (concat (map cells [mkRange 0 1 0 4, mkRange 2 2 0 4, mkRange 1 1 0 1, mkRange 1 1 2 2, mkRange 1 1 1 1]))"
    by (simp add: cells_def mkRange_def upt_rec)
  show "set (concat (map cells [mkRange 0 1 0 4, mkRange 2 2 0 4, mkRange 1 1 0 1, mkRange 1 1 2 2, mkRange 1 1 1 1]))
       = set (cells (mkRange 0 4 0 4))"
    by code_simp
qed

subsection \<open>C2: cutting a range with itself\<close>

text \<open>
  C2 as stated fails: cutting layers [0,4) x mips [0,4) with itself returns one rectangle
  (\<open>numAreas = 1\<close>), not the empty result.
\<close>

theorem cutRange_self_counterexample:
  "cutRange (mkRange 0 4 0 4) (mkRange 0 4 0 4) = Inr [mkRange 0 4 0 4]
   \<and> cutRange (mkRange 0 4 0 4) (mkRange 0 4 0 4) \<noteq> Inr []"
  by (simp add: cut_defs)

text \<open>
  Claim C2, amended.  For every subresource range \<open>R\<close>, \<open>cutRange(R, R)\<close> returns exactly the
  single rectangle \<open>R\<close> (\<open>numAreas = 1\<close>): neither axis produces a cut, and the "Nothing to cut"
  branches of \<open>cutHorizontal\<close> and \<open>cutVertical\<close> emit the range unchanged.
\<close>

theorem cutRange_self: "cutRange R R = Inr [R]"
  by (simp add: cutRange_def cutHorizontal_def cutVertical_def layersWithin_def Let_def)

subsection \<open>C3: a cut range that does not intersect\<close>

text \<open>
  C3 as stated fails: \<open>R\<close> = layers [0,4) x mips [0,4) and \<open>R'\<close> = layers [1,2) x mips [5,6) do
  not intersect (their mip intervals are disjoint, and \<open>rangeOverlaps\<close> is false), yet the
  horizontal cut, which looks at the layer axis only, splits \<open>R\<close> into three rectangles.
\<close>

theorem cutRange_mip_disjoint_counterexample:
  "\<not> rangeOverlaps (mkRange 0 4 0 4) (mkRange 1 1 5 1) \<and>
   cutRange (mkRange 0 4 0 4) (mkRange 1 1 5 1) =
     Inr [mkRange 0 1 0 4, mkRange 2 2 0 4, mkRange 1 1 0 4] \<and>
   cutRange (mkRange 0 4 0 4) (mkRange 1 1 5 1) \<noteq> Inr [mkRange 0 4 0 4]"
  by (simp add: cut_defs rangeOverlaps_def)

text \<open>
  Claim C3, amended.  Let \<open>R\<close> and \<open>R'\<close> be ranges whose end coordinates fit in \<open>INT32\<close>, \<open>R\<close>
  with at least one layer.  If the layer intervals are disjoint with \<open>R'\<close> clear of \<open>R\<close>
  (\<open>layersClear\<close>), or if the layer interval of \<open>R\<close> lies within that of \<open>R'\<close> and the mip
  intervals are disjoint with \<open>R'\<close> clear of \<open>R\<close> (\<open>mipsClear\<close>), then \<open>cutRange(R, R')\<close>
  returns exactly the single rectangle \<open>R\<close>, unchanged.  Nothing is said about a \<open>R'\<close> that
  begins less than \<open>base + count\<close> positions after the first position of \<open>R\<close> but at or after
  its end.
\<close>

theorem cutRange_disjoint:
  assumes "wellFormed R" "wellFormed R'" "0 < unat (layerCount R)"
    and "layersClear R R' \<or> (layersWithin R R' \<and> mipsClear R R')"
  shows "cutRange R R' = Inr [R]"
proof -
  have h: "cutHorizontal R R' = [R]"
    using assms(4) by (intro cutHorizontal_clear assms(1,2)) blast
  show ?thesis
  proof (cases "layersWithin R R'")
    case True
    with assms(4) layersClear_not_within [OF assms(1,2) _ assms(3)] have "mipsClear R R'" by blast
    then have "cutVertical R R' = [R]" by (intro cutVertical_clear assms(1,2))
    with True h show ?thesis by (simp add: cutRange_def)
  next
    case False
    with h show ?thesis by (simp add: cutRange_def)
  qed
qed

theorem cutRange_disjoint_witness:
  "wellFormed (mkRange 0 2 0 1) \<and> wellFormed (mkRange 5 1 0 1)
   \<and> 0 < unat (layerCount (mkRange 0 2 0 1))
   \<and> (layersClear (mkRange 0 2 0 1) (mkRange 5 1 0 1)
       \<or> (layersWithin (mkRange 0 2 0 1) (mkRange 5 1 0 1)
           \<and> mipsClear (mkRange 0 2 0 1) (mkRange 5 1 0 1)))
   \<and> cutRange (mkRange 0 2 0 1) (mkRange 5 1 0 1) = Inr [mkRange 0 2 0 1]"
proof -
  have h1: "wellFormed (mkRange 0 2 0 1)" and h2: "wellFormed (mkRange 5 1 0 1)"
    by (simp_all add: wellFormed_def mkRange_def)
  have h3: "0 < unat (layerCount (mkRange 0 2 0 1))" by (simp add: mkRange_def)
  have h4: "layersClear (mkRange 0 2 0 1) (mkRange 5 1 0 1)
       \<or> (layersWithin (mkRange 0 2 0 1) (mkRange 5 1 0 1)
           \<and> mipsClear (mkRange 0 2 0 1) (mkRange 5 1 0 1))"
    by (simp add: layersClear_def mkRange_def)
  show ?thesis using h1 h2 h3 h4 cutRange_disjoint [OF h1 h2 h3 h4] by blast
qed

subsection \<open>C4: output rectangles within the bounds of the range that is cut\<close>

text \<open>
  Claim C4: every rectangle in the output of \<open>cutRange(toCut, cutWith)\<close> has positive extents
  and lies within \<open>toCut\<close>.  The code breaks it: the guard of the left cut compares the offset
  \<open>leftCut\<close> with the absolute end \<open>baseArrayLayer + layerCount\<close> (the guard of the right cut
  compares with \<open>layerCount\<close>).  For \<open>toCut\<close> = layers [2,4) and \<open>cutWith\<close> = layers [5,6), which
  do not overlap, the only output rectangle is layers [2,5): it covers layer 4, outside
  \<open>toCut\<close>.
\<close>

theorem cutRange_left_cut_escapes:
  "cutRange (mkRange 2 2 0 1) (mkRange 5 1 0 1) = Inr [mkRange 2 3 0 1]
   \<and> \<not> set (cells (mkRange 2 3 0 1)) \<subseteq> set (cells (mkRange 2 2 0 1))
   \<and> \<not> rangeOverlaps (mkRange 2 2 0 1) (mkRange 5 1 0 1)"
  by (simp add: cut_defs cells_def upt_rec rangeOverlaps_def)

subsection \<open>C7: at most five output rectangles\<close>

text \<open>
  Claim C7.  For every pair of ranges \<open>toCut\<close> and \<open>cutWith\<close> that are well formed (every end
  coordinate \<open>base + count\<close> is representable as a non-negative \<open>INT32\<close>), \<open>cutRange\<close> returns
  normally with at most 5 rectangles: no write goes past the 5-element output array and the
  assertion \<open>numAreas <= 5\<close> holds.
\<close>

theorem cutRange_at_most_5:
  assumes "wellFormed a" "wellFormed b"
  shows "\<exists>out. cutRange a b = Inr out \<and> length out \<le> 5"
  using cutHorizontal_shape [OF assms] cutVertical_length [of a b]
  apply (elim disjE exE conjE)
    apply (simp_all add: cutRange_def Let_def)
  subgoal for p q m
    using cutVertical_length [of m b] by auto
  done

theorem cutRange_at_most_5_witness:
  "wellFormed (mkRange 0 4 0 4) \<and> wellFormed (mkRange 1 1 1 1) \<and>
   (\<exists>out. cutRange (mkRange 0 4 0 4) (mkRange 1 1 1 1) = Inr out \<and> length out \<le> 5)"
proof -
  have h1: "wellFormed (mkRange 0 4 0 4)" and h2: "wellFormed (mkRange 1 1 1 1)"
    by (simp_all add: wellFormed_def mkRange_def)
  show ?thesis using h1 h2 cutRange_at_most_5 [OF h1 h2] by blast
qed

text \<open>
  Without well-formedness the bound is lost: with a first layer of \<open>0xFFFFFFFF\<close> the sums
  wrap, two horizontal pieces pass the containment test, and the sixth write overruns.
\<close>

lemma cutRange_overrun_when_wrapping:
  "cutRange (mkRange 0xFFFFFFFF 5 0 4) (mkRange 0 2 1 1) = Inl ArrayOverrun"
  by code_simp

end
